theory Spec2Isabelle
  imports Complex_Main "HOL-Library.Word"
begin

section \<open>Python values the three modules work on\<close>

text \<open>
  A NumPy array is its shape and its elements in row-major order. Pixel intensities and
  the threshold are modelled as real numbers: the value of a finite float, compared as
  NumPy compares two values of one dtype. Rounding of float arithmetic is not modelled.
\<close>

record 'a ndarray =
  shape :: "nat list"
  data :: "'a list"

text \<open>Every array NumPy builds holds as many elements as its shape says.\<close>

definition wf_ndarray :: "'a ndarray \<Rightarrow> bool" where
  "wf_ndarray a = (length (data a) = prod_list (shape a))"

text \<open>\<^verbatim>\<open>a[i, j]\<close> on a two-dimensional array, for indices counted from zero;
  \<open>None\<close> where NumPy raises IndexError.\<close>

definition getitem2 :: "'a ndarray \<Rightarrow> nat \<Rightarrow> nat \<Rightarrow> 'a option" where
  "getitem2 a i j =
     (case shape a of
        [h, w] \<Rightarrow> if i < h \<and> j < w then Some (data a ! (i * w + j)) else None
      | _ \<Rightarrow> None)"

text \<open>Python exceptions, by class; \<open>OtherError\<close> stands for the classes that have no
  constructor of their own, with the name of the class.\<close>

datatype py_error =
  ValueError string | IndexError | OverflowError | MemoryError | OSError
  | AttributeError | OtherError string

subsection \<open>How Python prints a shape\<close>

definition digit_char :: "nat \<Rightarrow> char" where
  "digit_char d = char_of (48 + d)"

function show_nat :: "nat \<Rightarrow> string" where
  "show_nat n = (if n < 10 then [digit_char n] else show_nat (n div 10) @ [digit_char (n mod 10)])"
  by pat_completeness auto
termination
  by (relation "measure (\<lambda>n. n)") auto

declare show_nat.simps [simp del]

text \<open>\<^verbatim>\<open>", ".join\<close> of the items.\<close>

fun join_comma :: "string list \<Rightarrow> string" where
  "join_comma [] = []"
| "join_comma [x] = x"
| "join_comma (x # y # ys) = x @ '', '' @ join_comma (y # ys)"

text \<open>The \<^verbatim>\<open>repr\<close> of a tuple of ints: \<^verbatim>\<open>()\<close>, \<^verbatim>\<open>(4,)\<close>, \<^verbatim>\<open>(4, 5)\<close>.\<close>

definition show_shape :: "nat list \<Rightarrow> string" where
  "show_shape s =
     (case s of
        [n] \<Rightarrow> ''('' @ show_nat n @ '',)''
      | _ \<Rightarrow> ''('' @ join_comma (map show_nat s) @ '')'')"

text \<open>The \<^verbatim>\<open>repr\<close> of a list of such tuples.\<close>

definition show_shapes :: "nat list list \<Rightarrow> string" where
  "show_shapes ss = ''['' @ join_comma (map show_shape ss) @ '']''"

section \<open>The object store\<close>

text \<open>
  Arrays are mutable objects; a variable holds a reference. The store maps every
  reference to the array it denotes, and \<open>next_free\<close> is the first reference not yet
  handed out: the references below it are the live objects.
\<close>

record heap =
  cells :: "nat \<Rightarrow> real ndarray"
  next_free :: nat

definition alloc :: "heap \<Rightarrow> real ndarray \<Rightarrow> nat \<times> heap" where
  "alloc h a =
     (next_free h, h\<lparr>cells := (cells h)(next_free h := a), next_free := Suc (next_free h)\<rparr>)"

text \<open>\<^verbatim>\<open>a.copy()\<close>: a new object with the elements of \<open>a\<close>.\<close>

definition np_copy :: "heap \<Rightarrow> nat \<Rightarrow> nat \<times> heap" where
  "np_copy h p = alloc h (cells h p)"

text \<open>\<^verbatim>\<open>a < t\<close> for a scalar \<open>t\<close>: the boolean array of the elementwise test.\<close>

definition np_less :: "real ndarray \<Rightarrow> real \<Rightarrow> bool ndarray" where
  "np_less a t = \<lparr>shape = shape a, data = map (\<lambda>v. v < t) (data a)\<rparr>"

text \<open>
  \<^verbatim>\<open>a[region] = v\<close> for a boolean array \<open>region\<close> of the shape of \<open>a\<close>: the object
  \<open>a\<close> is written in place. A boolean index of another shape is an IndexError (the
  program never builds one; NumPy's rule for an index of fewer dimensions is left out).
\<close>

definition setitem_mask :: "heap \<Rightarrow> nat \<Rightarrow> bool ndarray \<Rightarrow> real \<Rightarrow> py_error + heap" where
  "setitem_mask h p region v =
     (let a = cells h p in
      if shape region \<noteq> shape a then Inl IndexError
      else Inr (h\<lparr>cells := (cells h)
             (p := a\<lparr>data := map2 (\<lambda>x b. if b then v else x) (data a) (data region)\<rparr>)\<rparr>))"

section \<open>step5\_create\_masked: create\_masked\_stipple\<close>

text \<open>
  The function takes references to the stipple image and to the mask, and returns the
  reference of the array it built together with the store after the call. The printed
  statistics only read the arrays (sums of boolean arrays; a division of NumPy integers
  by zero yields nan or inf with a warning, not an exception) and are left out.
\<close>

definition create_masked_stipple ::
  "heap \<Rightarrow> nat \<Rightarrow> nat \<Rightarrow> real \<Rightarrow> py_error + (nat \<times> heap)" where
  "create_masked_stipple h stipple_img mask_img threshold =
     (if shape (cells h stipple_img) \<noteq> shape (cells h mask_img) then
        Inl (ValueError (''stipple_img shape '' @ show_shape (shape (cells h stipple_img))
               @ '' does not match mask_img shape '' @ show_shape (shape (cells h mask_img))))
      else
        (case np_copy h stipple_img of
           (masked_stipple, h1) \<Rightarrow>
             (let mask_region = np_less (cells h1 mask_img) threshold in
              case setitem_mask h1 masked_stipple mask_region 1 of
                Inl e \<Rightarrow> Inl e
              | Inr h2 \<Rightarrow> Inr (masked_stipple, h2))))"

section \<open>Double-precision arithmetic\<close>

text \<open>
  The function multiplies an int by a float and truncates the product with \<^verbatim>\<open>int\<close>. A
  finite double is a sign and a magnitude \<open>mant * 2 ^ expo\<close>, the mantissa of at most 53
  significant bits. The product of an int below \<open>2 ^ 53\<close> (which converts exactly) and a
  double is the exact product rounded to 53 significant bits, ties to even. A magnitude
  of \<open>2 ^ 1024\<close> or more is infinity. The reduced precision of subnormal results is not
  modelled: such a product is below 1 and truncates to 0 either way. The ratio passed
  in is a finite double (not nan, not infinity).
\<close>

datatype double = Double (negative: bool) (mant: nat) (expo: int)

fun bitlen :: "nat \<Rightarrow> nat" where
  "bitlen n = (if n = 0 then 0 else Suc (bitlen (n div 2)))"

declare bitlen.simps [simp del]

text \<open>\<open>p / 2 ^ s\<close> rounded to the nearest integer, a tie to the even one.\<close>

definition round_half_even :: "nat \<Rightarrow> nat \<Rightarrow> nat" where
  "round_half_even p s =
     (let q = p div 2 ^ s; r = p mod 2 ^ s
      in if 2 * r < 2 ^ s then q
         else if 2 ^ s < 2 * r then q + 1
         else if even q then q else q + 1)"

text \<open>\<open>p\<close> rounded to 53 significant bits.\<close>

definition round53 :: "nat \<Rightarrow> nat" where
  "round53 p = (let s = bitlen p - 53 in round_half_even p s * 2 ^ s)"

text \<open>\<^verbatim>\<open>n * d\<close> for an int \<open>0 \<le> n < 2 ^ 53\<close> and a double \<open>d\<close>.\<close>

definition mul_int_double :: "nat \<Rightarrow> double \<Rightarrow> double" where
  "mul_int_double n d = Double (negative d) (round53 (n * mant d)) (expo d)"

text \<open>The magnitude with its fraction dropped.\<close>

definition trunc_mag :: "double \<Rightarrow> nat" where
  "trunc_mag d =
     (if 0 \<le> expo d then mant d * 2 ^ nat (expo d) else mant d div 2 ^ nat (- expo d))"

definition trunc_int :: "double \<Rightarrow> int" where
  "trunc_int d = (if negative d then - int (trunc_mag d) else int (trunc_mag d))"

text \<open>\<^verbatim>\<open>int(x)\<close> of a float: truncation towards zero; OverflowError for infinity.\<close>

definition py_int :: "double \<Rightarrow> py_error + int" where
  "py_int d = (if 2 ^ 1024 \<le> trunc_mag d then Inl OverflowError else Inr (trunc_int d))"

text \<open>The float literals of the module, and 0.9, the default of \<^verbatim>\<open>font_size_ratio\<close>.\<close>

definition lit_0_5 :: double where "lit_0_5 = Double False 1 (- 1)"
definition lit_0_6 :: double where "lit_0_6 = Double False 5404319552844595 (- 53)"
definition lit_0_7 :: double where "lit_0_7 = Double False 6305039478318694 (- 53)"
definition lit_0_8 :: double where "lit_0_8 = Double False 7205759403792794 (- 53)"
definition lit_0_9 :: double where "lit_0_9 = Double False 8106479329266893 (- 53)"

section \<open>step4\_create\_block\_letter: create\_block\_letter\_s\<close>

text \<open>
  A Pillow image of mode \<^verbatim>\<open>L\<close>: its size, fixed when it is created, and one byte per
  pixel, addressed by column \<open>x\<close> and row \<open>y\<close>.
\<close>

type_synonym raster = "nat \<Rightarrow> nat \<Rightarrow> 8 word"

record image =
  im_width :: nat
  im_height :: nat
  pix :: raster

text \<open>
  What the fonts and the drawing of the machine do is a parameter of the model.
  \<^verbatim>\<open>truetype\<close> (asked for a positive size) and \<^verbatim>\<open>textbbox\<close> return or raise: the handlers
  of the function catch \<^verbatim>\<open>OSError\<close> from the first and \<^verbatim>\<open>AttributeError\<close> from the second,
  and any other exception leaves the function. \<^verbatim>\<open>load_default\<close> is \<open>None\<close> when it raises
  (its handler catches every \<^verbatim>\<open>Exception\<close>). \<open>allocation_error\<close> is the exception, if any,
  with which Pillow fails to allocate an image of a width and a height (MemoryError
  where the machine lacks the memory). \<^verbatim>\<open>textsize\<close> and the drawing calls are taken to
  return. A drawing call writes into the pixels of the image it was opened on and
  gives back the pixels after it: it cannot change the size. \<open>'f\<close> is the type of font
  objects.
\<close>

record 'f pil_env =
  allocation_error :: "nat \<Rightarrow> nat \<Rightarrow> py_error option"
  truetype :: "string \<Rightarrow> int \<Rightarrow> py_error + 'f"
  load_default :: "'f option"
  textbbox :: "string \<Rightarrow> 'f \<Rightarrow> py_error + (int \<times> int \<times> int \<times> int)"
  textsize :: "string \<Rightarrow> 'f \<Rightarrow> int \<times> int"
  draw_text :: "image \<Rightarrow> int \<times> int \<Rightarrow> string \<Rightarrow> 8 word \<Rightarrow> 'f \<Rightarrow> raster"
  draw_arc :: "image \<Rightarrow> int \<times> int \<times> int \<times> int \<Rightarrow> int \<Rightarrow> int \<Rightarrow> 8 word \<Rightarrow> int \<Rightarrow> raster"
  draw_rectangle :: "image \<Rightarrow> int \<times> int \<times> int \<times> int \<Rightarrow> 8 word \<Rightarrow> raster"

text \<open>
  \<^verbatim>\<open>Image.new('L', size, color)\<close>: Pillow refuses a negative width or height with a
  ValueError, accepts zero, and cannot pass a width or height of \<open>2 ^ 31\<close> or more to its
  C code (OverflowError); then the image is allocated, if the machine can.
\<close>

definition Image_new :: "'f pil_env \<Rightarrow> int \<times> int \<Rightarrow> 8 word \<Rightarrow> py_error + image" where
  "Image_new env sz color =
     (case sz of (w, h) \<Rightarrow>
        if w < 0 \<or> h < 0 then Inl (ValueError ''Width and height must be >= 0'')
        else if 2 ^ 31 \<le> w \<or> 2 ^ 31 \<le> h then Inl OverflowError
        else (case allocation_error env (nat w) (nat h) of
                Some e \<Rightarrow> Inl e
              | None \<Rightarrow> Inr \<lparr>im_width = nat w, im_height = nat h, pix = (\<lambda>x y. color)\<rparr>))"

text \<open>
  \<^verbatim>\<open>ImageFont.truetype(path, size)\<close>: Pillow refuses a size that is not positive with a
  ValueError before it looks at the file (later releases append the size to the
  message); otherwise the machine decides.
\<close>

definition ImageFont_truetype :: "'f pil_env \<Rightarrow> string \<Rightarrow> int \<Rightarrow> py_error + 'f" where
  "ImageFont_truetype env font_path sz =
     (if sz \<le> 0 then Inl (ValueError ''font size must be greater than 0'')
      else truetype env font_path sz)"

definition backslash :: string where
  "backslash = [CHR 0x5C]"

definition font_paths :: "string list" where
  "font_paths =
     [''/System/Library/Fonts/Supplemental/Arial Bold.ttf'',
      ''/System/Library/Fonts/Supplemental/Arial.ttf'',
      ''/Library/Fonts/Arial Bold.ttf'',
      ''/System/Library/Fonts/Helvetica.ttc'',
      ''/usr/share/fonts/truetype/dejavu/DejaVuSans-Bold.ttf'',
      ''/usr/share/fonts/truetype/liberation/LiberationSans-Bold.ttf'',
      ''C:'' @ backslash @ ''Windows'' @ backslash @ ''Fonts'' @ backslash @ ''arialbd.ttf'',
      ''C:'' @ backslash @ ''Windows'' @ backslash @ ''Fonts'' @ backslash @ ''arial.ttf'']"

text \<open>
  The loop over the font paths: the first path that loads wins, a path that raises
  \<^verbatim>\<open>OSError\<close> (of which \<^verbatim>\<open>IOError\<close> is another name) is skipped, and any other exception
  ends the loop and the function.
\<close>

fun try_fonts :: "'f pil_env \<Rightarrow> string list \<Rightarrow> int \<Rightarrow> py_error + 'f option" where
  "try_fonts env [] base_font_size = Inr None"
| "try_fonts env (font_path # rest) base_font_size =
     (case ImageFont_truetype env font_path base_font_size of
        Inr font \<Rightarrow> Inr (Some font)
      | Inl e \<Rightarrow> if e = OSError then try_fonts env rest base_font_size else Inl e)"

text \<open>Lines 43 to 77: the listed fonts, then the default font, then no font.\<close>

definition load_font :: "'f pil_env \<Rightarrow> int \<Rightarrow> py_error + 'f option" where
  "load_font env base_font_size =
     (case try_fonts env font_paths base_font_size of
        Inl e \<Rightarrow> Inl e
      | Inr (Some font) \<Rightarrow> Inr (Some font)
      | Inr None \<Rightarrow> Inr (load_default env))"

text \<open>
  Lines 80 to 92: the width and height of the text. The image is at most \<open>2 ^ 31\<close> wide
  and high here, so the products with 0.6 and 0.8 are not infinite.
\<close>

definition text_extent ::
  "'f pil_env \<Rightarrow> string \<Rightarrow> 'f option \<Rightarrow> int \<Rightarrow> int \<Rightarrow> py_error + (int \<times> int)" where
  "text_extent env letter font width height =
     (case font of
        Some f \<Rightarrow>
          (case textbbox env letter f of
             Inr (x0, y0, x1, y1) \<Rightarrow> Inr (x1 - x0, y1 - y0)
           | Inl e \<Rightarrow> if e = AttributeError then Inr (textsize env letter f) else Inl e)
      | None \<Rightarrow>
          Inr (trunc_int (mul_int_double (nat width) lit_0_6),
               trunc_int (mul_int_double (nat height) lit_0_8)))"

text \<open>Lines 95 and 96: Python's \<^verbatim>\<open>//\<close> on ints is \<open>div\<close> on \<open>int\<close> (both round down).\<close>

definition centre_offset :: "int \<Rightarrow> int \<Rightarrow> int \<times> int \<Rightarrow> int \<times> int" where
  "centre_offset width height ext =
     (case ext of (text_width, text_height) \<Rightarrow>
        ((width - text_width) div 2, (height - text_height) div 2))"

text \<open>Lines 102 to 120: the S drawn from two arcs and a bar when there is no font.\<close>

definition draw_fallback_s :: "'f pil_env \<Rightarrow> image \<Rightarrow> int \<Rightarrow> int \<Rightarrow> image" where
  "draw_fallback_s env img width height =
     (let s_width = trunc_int (mul_int_double (nat width) lit_0_5);
          s_height = trunc_int (mul_int_double (nat height) lit_0_7);
          s_x = (width - s_width) div 2;
          s_y = (height - s_height) div 2;
          thickness = max 10 (min width height div 20);
          img1 = img\<lparr>pix := draw_arc env img
                   (s_x, s_y, s_x + s_width, s_y + s_height div 3) 90 270 0 thickness\<rparr>;
          img2 = img1\<lparr>pix := draw_arc env img1
                   (s_x, s_y + 2 * s_height div 3, s_x + s_width, s_y + s_height) 270 90 0 thickness\<rparr>
      in img2\<lparr>pix := draw_rectangle env img2
                   (s_x + s_width div 2 - thickness div 2, s_y + s_height div 4,
                    s_x + s_width div 2 + thickness div 2, s_y + 3 * s_height div 4) 0\<rparr>)"

text \<open>Lines 99 to 120.\<close>

definition draw_letter ::
  "'f pil_env \<Rightarrow> image \<Rightarrow> 'f option \<Rightarrow> int \<times> int \<Rightarrow> string \<Rightarrow> int \<Rightarrow> int \<Rightarrow> image" where
  "draw_letter env img font xy letter width height =
     (case font of
        Some f \<Rightarrow> img\<lparr>pix := draw_text env img xy letter 0 f\<rparr>
      | None \<Rightarrow> draw_fallback_s env img width height)"

text \<open>\<^verbatim>\<open>np.array(img, dtype=np.float32) / 255.0\<close>: one row of the array per row of the
  image, so the shape is (height, width).\<close>

definition image_to_array :: "image \<Rightarrow> real ndarray" where
  "image_to_array img =
     \<lparr>shape = [im_height img, im_width img],
      data = concat (map (\<lambda>y. map (\<lambda>x. real (unat (pix img x y)) / 255) [0..<im_width img])
                         [0..<im_height img])\<rparr>"

text \<open>
  The function, statement by statement; the first exception ends it. Of the
  diagnostics it prints, \<^verbatim>\<open>letter_array.min()\<close> is the one that can raise: NumPy has no
  minimum of an array without elements.
\<close>

definition create_block_letter_s ::
  "'f pil_env \<Rightarrow> int \<Rightarrow> int \<Rightarrow> string \<Rightarrow> double \<Rightarrow> py_error + real ndarray" where
  "create_block_letter_s env height width letter font_size_ratio =
     (case Image_new env (width, height) 255 of
        Inl e \<Rightarrow> Inl e
      | Inr img \<Rightarrow>
     (case py_int (mul_int_double (nat (min height width)) font_size_ratio) of
        Inl e \<Rightarrow> Inl e
      | Inr base_font_size \<Rightarrow>
     (case load_font env base_font_size of
        Inl e \<Rightarrow> Inl e
      | Inr font \<Rightarrow>
     (case text_extent env letter font width height of
        Inl e \<Rightarrow> Inl e
      | Inr ext \<Rightarrow>
          (let xy = centre_offset width height ext;
               letter_array = image_to_array (draw_letter env img font xy letter width height)
           in if data letter_array = [] then
                Inl (ValueError
                  ''zero-size array to reduction operation minimum which has no identity'')
              else Inr letter_array)))))"

section \<open>create\_meme: create\_statistics\_meme\<close>

text \<open>
  The files on disk are a map from paths to contents. What matplotlib draws for the
  four panels and writes at \<^verbatim>\<open>savefig\<close> is a parameter, taken to return; \<open>'p\<close> is
  the type of file contents. The function returns its outcome and the files after the
  call. The check of the shapes comes before the first call to matplotlib.
\<close>

type_synonym 'p files = "string \<rightharpoonup> 'p"

definition create_statistics_meme ::
  "(real ndarray list \<Rightarrow> int \<Rightarrow> string \<Rightarrow> 'p) \<Rightarrow>
   real ndarray \<Rightarrow> real ndarray \<Rightarrow> real ndarray \<Rightarrow> real ndarray \<Rightarrow>
   string \<Rightarrow> int \<Rightarrow> string \<Rightarrow> 'p files \<Rightarrow> (py_error + unit) \<times> 'p files" where
  "create_statistics_meme savefig original_img stipple_img block_letter_img masked_stipple_img
       output_path dpi background_color fs =
     (let shapes = map shape [original_img, stipple_img, block_letter_img, masked_stipple_img]
      in if card (set shapes) > 1 then
           (Inl (ValueError (''All images must have the same shape. Got shapes: ''
                   @ show_shapes shapes)), fs)
         else
           (Inr (),
            fs(output_path \<mapsto>
                 savefig [original_img, stipple_img, block_letter_img, masked_stipple_img]
                   dpi background_color)))"

section \<open>Concrete inputs\<close>

text \<open>\<^verbatim>\<open>np.full(shape, v)\<close>: the array of that shape with every element \<open>v\<close>.\<close>

definition np_full :: "nat list \<Rightarrow> 'a \<Rightarrow> 'a ndarray" where
  "np_full s v = \<lparr>shape = s, data = replicate (prod_list s) v\<rparr>"

text \<open>
  A store with two live 2 by 2 arrays: the sample \<^verbatim>\<open>[[0, 0.3], [1, 0]]\<close> at reference 0
  and the mask \<^verbatim>\<open>[[0, 0.5], [1, 0.4]]\<close> at reference 1. With the threshold 0.5 the mask
  cell (0, 1) is the tie.
\<close>

definition demo_heap :: heap where
  "demo_heap =
     \<lparr>cells = (\<lambda>p. if p = 0 then \<lparr>shape = [2, 2], data = [0, 3 / 10, 1, 0]\<rparr>
                    else \<lparr>shape = [2, 2], data = [0, 1 / 2, 1, 4 / 10]\<rparr>),
      next_free = 2\<rparr>"

text \<open>A store with a sample of shape (4, 4) and a mask of shape (4, 5).\<close>

definition mismatch_heap :: heap where
  "mismatch_heap =
     \<lparr>cells = (\<lambda>p. if p = 0 then np_full [4, 4] 0 else np_full [4, 5] 1), next_free = 2\<rparr>"

text \<open>
  A machine that has the memory for every image and the DejaVu font only. Its Pillow measures a letter as 6/10 by 7/10
  of the font size and draws it as a filled box of that size; a font is its path and
  size. Arcs leave the image as it is and a rectangle is filled with its corners
  included.
\<close>

definition demo_env :: "(string \<times> int) pil_env" where
  "demo_env =
     \<lparr>allocation_error = (\<lambda>w h. None),
      truetype = (\<lambda>path sz.
        if path = ''/usr/share/fonts/truetype/dejavu/DejaVuSans-Bold.ttf'' then Inr (path, sz)
        else Inl OSError),
      load_default = Some (''default'', 10),
      textbbox = (\<lambda>letter f. Inr (0, 0, 6 * snd f div 10, 7 * snd f div 10)),
      textsize = (\<lambda>letter f. (6 * snd f div 10, 7 * snd f div 10)),
      draw_text = (\<lambda>img xy letter fill f x y.
        if fst xy \<le> int x \<and> int x < fst xy + 6 * snd f div 10 \<and>
           snd xy \<le> int y \<and> int y < snd xy + 7 * snd f div 10
        then fill else pix img x y),
      draw_arc = (\<lambda>img box start stop fill w. pix img),
      draw_rectangle = (\<lambda>img box fill x y.
        case box of (x0, y0, x1, y1) \<Rightarrow>
          if x0 \<le> int x \<and> int x \<le> x1 \<and> y0 \<le> int y \<and> int y \<le> y1 then fill
          else pix img x y)\<rparr>"

text \<open>The same machine with no font at all: no file loads, nor does the default font.\<close>

definition demo_env_nofont :: "(string \<times> int) pil_env" where
  "demo_env_nofont = demo_env\<lparr>truetype := (\<lambda>path sz. Inl OSError), load_default := None\<rparr>"

text \<open>The same machine with a font whose glyphs have no ink: drawing text changes no
  pixel.\<close>

definition blank_font_env :: "(string \<times> int) pil_env" where
  "blank_font_env = demo_env\<lparr>draw_text := (\<lambda>img xy letter fill f. pix img)\<rparr>"




section \<open>Properties of create\_masked\_stipple\<close>

lemma index_bound: "i < (H::nat) \<Longrightarrow> j < W \<Longrightarrow> i * W + j < H * W"
proof -
  assume a: "i < H" "j < W"
  have "i * W + j < i * W + W" using a by simp
  also have "\<dots> = Suc i * W" by simp
  also have "\<dots> \<le> H * W" using a(1) by (intro mult_le_mono1) simp
  finally show ?thesis .
qed

text \<open>What a call on two live arrays of one shape returns: a new object, the copy of
  the sample with 1 written wherever the mask is below the threshold.\<close>

lemma create_masked_stipple_ok:
  assumes "s < next_free h" "m < next_free h"
      and "shape (cells h s) = shape (cells h m)"
  shows "create_masked_stipple h s m t =
    Inr (next_free h,
         h\<lparr>cells := (cells h)(next_free h :=
              (cells h s)\<lparr>data := map2 (\<lambda>x b. if b then 1 else x) (data (cells h s))
                                      (map (\<lambda>v. v < t) (data (cells h m)))\<rparr>),
           next_free := Suc (next_free h)\<rparr>)"
  using assms
  by (simp add: create_masked_stipple_def np_copy_def alloc_def np_less_def setitem_mask_def
        Let_def)

lemma masked_twice:
  "map2 (\<lambda>x b. if b then (v::real) else x) (map2 (\<lambda>x b. if b then v else x) xs bs) bs =
   map2 (\<lambda>x b. if b then v else x) xs bs"
proof (induction xs arbitrary: bs)
  case Nil
  then show ?case by simp
next
  case (Cons x xs)
  then show ?case by (cases bs) simp_all
qed

lemma demo_heap_facts:
  "(0::nat) < next_free demo_heap" "1 < next_free demo_heap"
  "wf_ndarray (cells demo_heap 0)" "wf_ndarray (cells demo_heap 1)"
  "shape (cells demo_heap 0) = [2, 2]" "shape (cells demo_heap 1) = [2, 2]"
  by (simp_all add: demo_heap_def wf_ndarray_def)

lemma demo_heap_run:
  "\<exists>h'. create_masked_stipple demo_heap 0 1 (1 / 2) = Inr (2, h') \<and>
        cells h' 2 = \<lparr>shape = [2, 2], data = [1, 3 / 10, 1, 1]\<rparr> \<and>
        getitem2 (cells h' 2) 0 1 = Some (3 / 10)"
proof -
  have "create_masked_stipple demo_heap 0 1 (1 / 2) =
    Inr (next_free demo_heap,
         demo_heap\<lparr>cells := (cells demo_heap)(next_free demo_heap :=
              (cells demo_heap 0)\<lparr>data := map2 (\<lambda>x b. if b then 1 else x) (data (cells demo_heap 0))
                                      (map (\<lambda>v. v < 1 / 2) (data (cells demo_heap 1)))\<rparr>),
           next_free := Suc (next_free demo_heap)\<rparr>)"
    by (rule create_masked_stipple_ok) (simp_all add: demo_heap_def)
  then show ?thesis
    by (simp add: demo_heap_def getitem2_def)
qed

text \<open>
  C1. For a sample and a mask of one shape (H, W) and every threshold, the call returns
  an array of shape (H, W) whose element at every position (i, j) is 1 where the mask
  is strictly below the threshold and the sample's element otherwise; a position where
  the mask equals the threshold keeps the sample's element.
\<close>

theorem masked_stipple_pointwise:
  assumes "s < next_free h" and "m < next_free h"
      and "wf_ndarray (cells h s)" and "wf_ndarray (cells h m)"
      and "shape (cells h s) = [H, W]" and "shape (cells h m) = [H, W]"
  shows "\<exists>r h'. create_masked_stipple h s m t = Inr (r, h') \<and>
           shape (cells h' r) = [H, W] \<and>
           (\<forall>i j. i < H \<longrightarrow> j < W \<longrightarrow>
              (\<exists>sv mv. getitem2 (cells h s) i j = Some sv \<and>
                       getitem2 (cells h m) i j = Some mv \<and>
                       getitem2 (cells h' r) i j = Some (if mv < t then 1 else sv) \<and>
                       (mv = t \<longrightarrow> getitem2 (cells h' r) i j = Some sv)))"
proof -
  let ?R = "(cells h s)\<lparr>data := map2 (\<lambda>x b. if b then 1 else x) (data (cells h s))
                                      (map (\<lambda>v. v < t) (data (cells h m)))\<rparr>"
  let ?h' = "h\<lparr>cells := (cells h)(next_free h := ?R), next_free := Suc (next_free h)\<rparr>"
  have call: "create_masked_stipple h s m t = Inr (next_free h, ?h')"
    using assms(1,2,5,6) by (simp add: create_masked_stipple_ok)
  have res: "cells ?h' (next_free h) = ?R" by simp
  have ls: "length (data (cells h s)) = H * W" and lm: "length (data (cells h m)) = H * W"
    using assms(3-6) by (simp_all add: wf_ndarray_def)
  have pt: "getitem2 (cells h s) i j = Some (data (cells h s) ! (i * W + j)) \<and>
            getitem2 (cells h m) i j = Some (data (cells h m) ! (i * W + j)) \<and>
            getitem2 ?R i j = Some (if data (cells h m) ! (i * W + j) < t then 1
                                    else data (cells h s) ! (i * W + j))"
    if "i < H" "j < W" for i j
  proof -
    have k: "i * W + j < H * W" using that by (rule index_bound)
    show ?thesis
      using that k assms(5,6) ls lm by (simp add: getitem2_def)
  qed
  show ?thesis
  proof (intro exI conjI allI impI)
    show "create_masked_stipple h s m t = Inr (next_free h, ?h')" by (rule call)
    show "shape (cells ?h' (next_free h)) = [H, W]" using assms(5) by simp
  next
    fix i j assume ij: "i < H" "j < W"
    show "getitem2 (cells h s) i j = Some (data (cells h s) ! (i * W + j))"
      using pt[OF ij] by simp
    show "getitem2 (cells h m) i j = Some (data (cells h m) ! (i * W + j))"
      using pt[OF ij] by simp
    show "getitem2 (cells ?h' (next_free h)) i j =
          Some (if data (cells h m) ! (i * W + j) < t then 1 else data (cells h s) ! (i * W + j))"
      using pt[OF ij] by (simp only: res)
    assume "data (cells h m) ! (i * W + j) = t"
    then show "getitem2 (cells ?h' (next_free h)) i j = Some (data (cells h s) ! (i * W + j))"
      using pt[OF ij] by (simp only: res) simp
  qed
qed

theorem masked_stipple_pointwise_witness:
  "\<exists>r h'. create_masked_stipple demo_heap 0 1 (1 / 2) = Inr (r, h') \<and>
           shape (cells h' r) = [2, 2] \<and>
           (\<forall>i j. i < 2 \<longrightarrow> j < 2 \<longrightarrow>
              (\<exists>sv mv. getitem2 (cells demo_heap 0) i j = Some sv \<and>
                       getitem2 (cells demo_heap 1) i j = Some mv \<and>
                       getitem2 (cells h' r) i j = Some (if mv < 1 / 2 then 1 else sv) \<and>
                       (mv = 1 / 2 \<longrightarrow> getitem2 (cells h' r) i j = Some sv)))"
  by (rule masked_stipple_pointwise [of 0 demo_heap 1 2 2 "1 / 2"]) (rule demo_heap_facts)+

text \<open>
  C2. The call fails with the ValueError whose message gives both shapes exactly when
  the shape of the sample differs from the shape of the mask, and it fails in no other
  way: calls on arrays of one shape return.
\<close>

theorem shape_mismatch_iff:
  "(create_masked_stipple h s m t =
      Inl (ValueError (''stipple_img shape '' @ show_shape (shape (cells h s))
             @ '' does not match mask_img shape '' @ show_shape (shape (cells h m)))))
     = (shape (cells h s) \<noteq> shape (cells h m))
   \<and> isl (create_masked_stipple h s m t) = (shape (cells h s) \<noteq> shape (cells h m))"
  by (simp add: create_masked_stipple_def np_copy_def alloc_def np_less_def setitem_mask_def
        Let_def)

lemma show_shape_examples:
  "show_shape [4, 4] = ''(4, 4)''" "show_shape [4, 5] = ''(4, 5)''"
  by code_simp+

text \<open>A sample of shape (4, 4) with a mask of shape (4, 5), and the 2 by 2 pair.\<close>

theorem shape_mismatch_iff_witness:
  "create_masked_stipple mismatch_heap 0 1 (1 / 2) =
     Inl (ValueError ''stipple_img shape (4, 4) does not match mask_img shape (4, 5)'')
   \<and> \<not> isl (create_masked_stipple demo_heap 0 1 (1 / 2))"
proof -
  have a: "shape (cells mismatch_heap 0) = [4, 4]" "shape (cells mismatch_heap 1) = [4, 5]"
    by (simp_all add: mismatch_heap_def np_full_def)
  have "create_masked_stipple mismatch_heap 0 1 (1 / 2) =
     Inl (ValueError (''stipple_img shape '' @ show_shape [4, 4]
             @ '' does not match mask_img shape '' @ show_shape [4, 5]))"
    using shape_mismatch_iff [of mismatch_heap 0 1 "1 / 2"] by (simp only: a) simp
  moreover have "\<not> isl (create_masked_stipple demo_heap 0 1 (1 / 2))"
    using shape_mismatch_iff [of demo_heap 0 1 "1 / 2"] by (simp only: demo_heap_facts) simp
  ultimately show ?thesis by (simp add: show_shape_examples)
qed

text \<open>
  C5. A call on a sample and a mask of one shape leaves the sample as it was: the
  result is a new object, and every array that was live before the call (the sample
  and the mask among them) holds after the call what it held before.
\<close>

theorem sample_not_mutated:
  assumes "s < next_free h" and "m < next_free h"
      and "shape (cells h s) = shape (cells h m)"
  shows "\<exists>r h'. create_masked_stipple h s m t = Inr (r, h') \<and> r \<noteq> s \<and> r \<noteq> m \<and>
           cells h' s = cells h s \<and> cells h' m = cells h m \<and>
           (\<forall>p. p < next_free h \<longrightarrow> cells h' p = cells h p)"
  using assms by (simp add: create_masked_stipple_ok)

theorem sample_not_mutated_witness:
  "\<exists>r h'. create_masked_stipple demo_heap 0 1 (1 / 2) = Inr (r, h') \<and> r \<noteq> 0 \<and> r \<noteq> 1 \<and>
           cells h' 0 = cells demo_heap 0 \<and> cells h' 1 = cells demo_heap 1 \<and>
           (\<forall>p. p < next_free demo_heap \<longrightarrow> cells h' p = cells demo_heap p)"
  by (rule sample_not_mutated [of 0 demo_heap 1 "1 / 2"]) (simp_all add: demo_heap_def)

text \<open>
  C6. A second call with the same sample, mask and threshold, made in the store the
  first call left, returns a new array equal to the first result in shape and in every
  element; the first result is not touched by it.
\<close>

theorem two_calls_same_output:
  assumes "s < next_free h" and "m < next_free h"
      and "shape (cells h s) = shape (cells h m)"
  shows "\<exists>r1 h1 r2 h2.
           create_masked_stipple h s m t = Inr (r1, h1) \<and>
           create_masked_stipple h1 s m t = Inr (r2, h2) \<and>
           r2 \<noteq> r1 \<and> cells h2 r2 = cells h1 r1 \<and> cells h2 r1 = cells h1 r1"
proof -
  let ?R = "(cells h s)\<lparr>data := map2 (\<lambda>x b. if b then 1 else x) (data (cells h s))
                                      (map (\<lambda>v. v < t) (data (cells h m)))\<rparr>"
  let ?h1 = "h\<lparr>cells := (cells h)(next_free h := ?R), next_free := Suc (next_free h)\<rparr>"
  have c1: "create_masked_stipple h s m t = Inr (next_free h, ?h1)"
    using assms by (rule create_masked_stipple_ok)
  have live: "s < next_free ?h1" "m < next_free ?h1" using assms(1,2) by simp_all
  have same: "cells ?h1 s = cells h s" "cells ?h1 m = cells h m" using assms(1,2) by simp_all
  have sh: "shape (cells ?h1 s) = shape (cells ?h1 m)" using assms(3) by (simp only: same)
  have c2: "create_masked_stipple ?h1 s m t =
      Inr (next_free ?h1,
           ?h1\<lparr>cells := (cells ?h1)(next_free ?h1 := ?R), next_free := Suc (next_free ?h1)\<rparr>)"
    using create_masked_stipple_ok[OF live sh, of t] by (simp only: same)
  show ?thesis
    apply (intro exI conjI)
        apply (rule c1)
       apply (rule c2)
      apply simp_all
    done
qed

theorem two_calls_same_output_witness:
  "\<exists>r1 h1 r2 h2.
     create_masked_stipple demo_heap 0 1 (1 / 2) = Inr (r1, h1) \<and>
     create_masked_stipple h1 0 1 (1 / 2) = Inr (r2, h2) \<and>
     r2 \<noteq> r1 \<and> cells h2 r2 = cells h1 r1 \<and> cells h2 r1 = cells h1 r1"
  by (rule two_calls_same_output [of 0 demo_heap 1 "1 / 2"]) (simp_all add: demo_heap_def)

text \<open>
  C10. Masking the result of a call again, with the same mask and threshold, returns an
  array equal to that result.
\<close>

theorem masking_idempotent:
  assumes "s < next_free h" and "m < next_free h"
      and "shape (cells h s) = shape (cells h m)"
  shows "\<exists>r1 h1 r2 h2.
           create_masked_stipple h s m t = Inr (r1, h1) \<and>
           create_masked_stipple h1 r1 m t = Inr (r2, h2) \<and>
           cells h2 r2 = cells h1 r1"
proof -
  let ?f = "\<lambda>x b. if b then (1::real) else x"
  let ?bs = "map (\<lambda>v. v < t) (data (cells h m))"
  let ?R = "(cells h s)\<lparr>data := map2 ?f (data (cells h s)) ?bs\<rparr>"
  let ?h1 = "h\<lparr>cells := (cells h)(next_free h := ?R), next_free := Suc (next_free h)\<rparr>"
  have c1: "create_masked_stipple h s m t = Inr (next_free h, ?h1)"
    using assms by (rule create_masked_stipple_ok)
  have live: "next_free h < next_free ?h1" "m < next_free ?h1" using assms(2) by simp_all
  have rd: "cells ?h1 (next_free h) = ?R" "cells ?h1 m = cells h m" using assms(2) by simp_all
  have sh: "shape (cells ?h1 (next_free h)) = shape (cells ?h1 m)"
    using assms(3) by (simp only: rd) simp
  have again: "?R\<lparr>data := map2 ?f (data ?R) ?bs\<rparr> = ?R"
    by (simp add: masked_twice)
  have c2: "create_masked_stipple ?h1 (next_free h) m t =
      Inr (next_free ?h1,
           ?h1\<lparr>cells := (cells ?h1)(next_free ?h1 := ?R), next_free := Suc (next_free ?h1)\<rparr>)"
    using create_masked_stipple_ok[OF live sh, of t] by (simp only: rd again)
  show ?thesis
    apply (intro exI conjI)
      apply (rule c1)
     apply (rule c2)
    apply simp
    done
qed

theorem masking_idempotent_witness:
  "\<exists>r1 h1 r2 h2.
     create_masked_stipple demo_heap 0 1 (1 / 2) = Inr (r1, h1) \<and>
     create_masked_stipple h1 r1 1 (1 / 2) = Inr (r2, h2) \<and>
     cells h2 r2 = cells h1 r1"
  by (rule masking_idempotent [of 0 demo_heap 1 "1 / 2"]) (simp_all add: demo_heap_def)

section \<open>Properties of the double-precision products\<close>

lemma bitlen_0 [simp]: "bitlen 0 = 0"
  by (simp add: bitlen.simps)

lemma bitlen_pos: "0 < n \<Longrightarrow> bitlen n = Suc (bitlen (n div 2))"
  by (subst bitlen.simps) simp

lemma bitlen_less: "n < 2 ^ bitlen n"
proof (induction n rule: bitlen.induct)
  case (1 n)
  show ?case
  proof (cases "n = 0")
    case True
    then show ?thesis by simp
  next
    case False
    then have "n div 2 < 2 ^ bitlen (n div 2)" using 1 by simp
    then have "n < 2 * 2 ^ bitlen (n div 2)" by linarith
    then show ?thesis using False by (simp add: bitlen_pos)
  qed
qed

lemma bitlen_ge: "0 < n \<Longrightarrow> 2 ^ (bitlen n - 1) \<le> n"
proof (induction n rule: bitlen.induct)
  case (1 n)
  show ?case
  proof (cases "n div 2 = 0")
    case True
    then have "n = 1" using 1(2) by linarith
    then show ?thesis by (simp add: bitlen_pos)
  next
    case False
    then have h: "2 ^ (bitlen (n div 2) - 1) \<le> n div 2" using 1 by simp
    have p: "0 < bitlen (n div 2)" using False by (simp add: bitlen_pos)
    have "bitlen n - 1 = Suc (bitlen (n div 2) - 1)" using 1(2) p by (simp add: bitlen_pos)
    then have "(2::nat) ^ (bitlen n - 1) = 2 * 2 ^ (bitlen (n div 2) - 1)" by simp
    also have "\<dots> \<le> 2 * (n div 2)" using h by simp
    also have "\<dots> \<le> n" by simp
    finally show ?thesis .
  qed
qed

lemma bitlen_eq:
  assumes "2 ^ k \<le> n" "n < 2 ^ Suc k"
  shows "bitlen n = Suc k"
proof -
  have two: "(1::nat) < 2" by simp
  have pos: "0 < n"
  proof (rule ccontr)
    assume "\<not> 0 < n"
    then have "(2::nat) ^ k \<le> 0" using assms(1) by simp
    then show False by simp
  qed
  have "2 ^ (bitlen n - 1) \<le> n" using pos by (rule bitlen_ge)
  then have "(2::nat) ^ (bitlen n - 1) < 2 ^ Suc k" using assms(2) by linarith
  from power_less_imp_less_exp[OF two this] have a: "bitlen n - 1 < Suc k" .
  have "(2::nat) ^ k < 2 ^ bitlen n" using assms(1) bitlen_less[of n] by linarith
  from power_less_imp_less_exp[OF two this] have b: "k < bitlen n" .
  show ?thesis using a b by linarith
qed

lemma bitlen_le: "n < 2 ^ k \<Longrightarrow> bitlen n \<le> k"
proof (rule ccontr)
  assume n: "n < 2 ^ k" and "\<not> bitlen n \<le> k"
  then have k: "k \<le> bitlen n - 1" by simp
  have "0 < n" using \<open>\<not> bitlen n \<le> k\<close> by (cases "n = 0") simp_all
  then have "2 ^ (bitlen n - 1) \<le> n" by (rule bitlen_ge)
  moreover have "(2::nat) ^ k \<le> 2 ^ (bitlen n - 1)" using k by (rule power_increasing) simp
  ultimately show False using n by linarith
qed



lemma round53_small: "p < 2 ^ 53 \<Longrightarrow> round53 p = p"
proof -
  assume "p < 2 ^ 53"
  then have "bitlen p - 53 = 0" using bitlen_le[of p 53] by simp
  then show ?thesis by (simp add: round53_def round_half_even_def)
qed




lemma round53_0 [simp]: "round53 0 = 0"
  by (rule round53_small) simp


lemma pow31: "(2::nat) ^ 31 = 2147483648" by simp






text \<open>\<^verbatim>\<open>int(1 * 0.9)\<close> is 0 and \<^verbatim>\<open>int(100 * 0.9)\<close> is 90.\<close>

lemma py_int_1_times_0_9: "py_int (mul_int_double 1 lit_0_9) = Inr 0"
proof -
  have "round53 8106479329266893 = 8106479329266893" by (rule round53_small) simp
  then show ?thesis
    by (simp add: py_int_def mul_int_double_def trunc_mag_def trunc_int_def lit_0_9_def)
qed


text \<open>\<^verbatim>\<open>int(90 * 0.7)\<close> is 62: the double nearest to 0.7 lies below it, and the product
  stays below 63.\<close>

lemma trunc_90_times_0_7: "trunc_int (mul_int_double 90 lit_0_7) = 62"
proof -
  have "bitlen 567453553048682460 = Suc 58" by (rule bitlen_eq) simp_all
  then have "round53 567453553048682460 = 567453553048682432"
    by (simp add: round53_def round_half_even_def Let_def)
  then show ?thesis
    by (simp add: mul_int_double_def trunc_mag_def trunc_int_def lit_0_7_def)
qed

section \<open>Properties of create\_block\_letter\_s\<close>







lemma Image_new_creates:
  assumes "0 \<le> W" "0 \<le> H" "W < 2 ^ 31" "H < 2 ^ 31"
      and "allocation_error env (nat W) (nat H) = None"
  shows "Image_new env (W, H) c = Inr \<lparr>im_width = nat W, im_height = nat H, pix = (\<lambda>x y. c)\<rparr>"
  using assms by (simp add: Image_new_def)

lemma demo_env_allocates:
  "allocation_error demo_env w h = None" "allocation_error demo_env_nofont w h = None"
  "allocation_error blank_font_env w h = None"
  by (simp_all add: demo_env_def demo_env_nofont_def blank_font_env_def)


text \<open>A font size that is not positive: the first font path already raises, and the
  handler does not catch a ValueError.\<close>

lemma load_font_size_not_positive:
  assumes "sz \<le> 0"
  shows "load_font env sz = Inl (ValueError ''font size must be greater than 0'')"
  using assms by (simp add: load_font_def font_paths_def ImageFont_truetype_def)


lemma create_block_letter_s_size_not_positive:
  assumes "Image_new env (W, H) 255 = Inr canvas"
      and "py_int (mul_int_double (nat (min H W)) r) = Inr sz" and "sz \<le> 0"
  shows "create_block_letter_s env H W letter r =
           Inl (ValueError ''font size must be greater than 0'')"
  using assms
  by (simp add: create_block_letter_s_def load_font_size_not_positive)



text \<open>The default call on a canvas of one pixel: the font size is \<^verbatim>\<open>int(0.9)\<close>, that is 0.\<close>

lemma one_by_one_raises:
  assumes "allocation_error env 1 1 = None"
  shows "create_block_letter_s env 1 1 letter lit_0_9 =
     Inl (ValueError ''font size must be greater than 0'')"
proof -
  have "Image_new env (1, 1) 255 = Inr \<lparr>im_width = nat 1, im_height = nat 1, pix = (\<lambda>x y. 255)\<rparr>"
    using assms by (intro Image_new_creates) simp_all
  moreover have "py_int (mul_int_double (nat (min 1 1)) lit_0_9) = Inr 0"
    using py_int_1_times_0_9 by simp
  ultimately show ?thesis
    by (rule create_block_letter_s_size_not_positive) simp
qed






text \<open>
  C4. The claim holds of whatever the function returns (\<open>block_letter_result\<close>), but the
  function does not return for every positive height and width: for H = W = 1 and the
  default ratio 0.9 the font size is 0, the font loader raises a ValueError, the loop
  over the font paths catches OSError only, and the call fails on every machine that
  can allocate the one pixel.
\<close>

theorem tiny_canvas_raises:
  assumes "allocation_error env 1 1 = None"
  shows "create_block_letter_s env 1 1 letter lit_0_9 =
     Inl (ValueError ''font size must be greater than 0'')"
  using assms by (rule one_by_one_raises)

theorem tiny_canvas_raises_witness:
  "create_block_letter_s demo_env 1 1 ''S'' lit_0_9 =
     Inl (ValueError ''font size must be greater than 0'')"
  by (rule tiny_canvas_raises) (rule demo_env_allocates)










section \<open>The two steps together\<close>












section \<open>Properties of create\_statistics\_meme\<close>

lemma card_four:
  "(Suc 0 < card (set [a, b, c, d])) = (\<not> (a = b \<and> b = c \<and> c = d))"
  by (auto simp: card_insert_if)

text \<open>
  C9. When the four arrays do not all have one shape, create_statistics_meme fails with
  the ValueError whose message lists the four shapes, and the files are the same after
  the call as before: nothing is written at the output path.
\<close>

theorem meme_shape_mismatch:
  assumes "\<not> (shape a = shape b \<and> shape b = shape c \<and> shape c = shape d)"
  shows "create_statistics_meme savefig a b c d output_path dpi background_color fs =
           (Inl (ValueError (''All images must have the same shape. Got shapes: ''
                   @ show_shapes [shape a, shape b, shape c, shape d])), fs)"
  using assms by (simp add: create_statistics_meme_def Let_def card_four del: set_simps)

lemma meme_written:
  assumes "shape a = shape b" "shape b = shape c" "shape c = shape d"
  shows "create_statistics_meme savefig a b c d output_path dpi background_color fs =
           (Inr (), fs(output_path \<mapsto> savefig [a, b, c, d] dpi background_color))"
  using assms by (simp add: create_statistics_meme_def Let_def)

lemma show_shapes_example:
  "show_shapes [[4, 4], [4, 4], [4, 5], [4, 4]] = ''[(4, 4), (4, 4), (4, 5), (4, 4)]''"
  by code_simp

theorem meme_shape_mismatch_witness:
  "create_statistics_meme (\<lambda>panels dpi bg. panels)
     (np_full [4, 4] 0) (np_full [4, 4] 1) (np_full [4, 5] 1) (np_full [4, 4] 1)
     ''meme.png'' 150 ''white'' Map.empty =
   (Inl (ValueError
      ''All images must have the same shape. Got shapes: [(4, 4), (4, 4), (4, 5), (4, 4)]''),
    Map.empty)"
proof -
  have "create_statistics_meme (\<lambda>panels dpi bg. panels)
     (np_full [4, 4] 0) (np_full [4, 4] 1) (np_full [4, 5] 1) (np_full [4, 4] 1)
     ''meme.png'' 150 ''white'' Map.empty =
   (Inl (ValueError (''All images must have the same shape. Got shapes: ''
       @ show_shapes [shape (np_full [4, 4] (0::real)), shape (np_full [4, 4] (1::real)),
                      shape (np_full [4, 5] (1::real)), shape (np_full [4, 4] (1::real))])),
    Map.empty)"
    by (rule meme_shape_mismatch) (simp add: np_full_def)
  then show ?thesis
    by (simp add: np_full_def show_shapes_example)
qed

end
